theory Spec2Isabelle
  imports Main "HOL-Library.Word" "HOL-Library.AList"
begin

unbundle bit_operations_syntax

section \<open>JavaScript values of the reactive layer\<close>

text \<open>
  The model of a view (\<open>self.$data\<close>) is a graph of mutable objects, and the wrappers of
  \<open>NestProxy\<close> keep references into it, so objects live in a store and a value is a
  primitive or a reference. Numbers are integers (no \<open>NaN\<close>, no fractions). An object has
  a kind and its own enumerable data properties in enumeration order; an array is an object
  of kind \<open>Array\<close> whose properties are its elements by index. Members inherited from
  prototypes, the \<open>length\<close> of arrays and the index properties of primitive strings are not
  represented: reading them yields \<open>undefined\<close> here.
\<close>

type_synonym addr = nat

datatype jsval = Undefined | Null | Bool bool | Num int | Str string | Ref addr

datatype okind = Plain | Array | Function | DomElement

record hobj =
  kind :: okind
  props :: "(string \<times> jsval) list"

type_synonym jsheap = "addr \<Rightarrow> hobj"

datatype jserror = Error string | TypeError | RangeError

datatype jstype = TUndefined | TObject | TBoolean | TNumber | TString | TFunction

definition typeof :: "jsheap \<Rightarrow> jsval \<Rightarrow> jstype" where
  "typeof h v =
     (case v of
        Undefined \<Rightarrow> TUndefined
      | Null \<Rightarrow> TObject
      | Bool b \<Rightarrow> TBoolean
      | Num n \<Rightarrow> TNumber
      | Str t \<Rightarrow> TString
      | Ref a \<Rightarrow> (if kind (h a) = Function then TFunction else TObject))"




text \<open>\<open>truthy v\<close> is the test \<open>if (v)\<close>.\<close>

fun truthy :: "jsval \<Rightarrow> bool" where
  "truthy Undefined = False"
| "truthy Null = False"
| "truthy (Bool b) = b"
| "truthy (Num n) = (n \<noteq> 0)"
| "truthy (Str t) = (t \<noteq> [])"
| "truthy (Ref a) = True"

text \<open>\<open>nullish v\<close> is the test \<open>v == undefined\<close>.\<close>

definition nullish :: "jsval \<Rightarrow> bool" where
  "nullish v = (v = Undefined \<or> v = Null)"

text \<open>
  \<open>getprop h obj key\<close> reads \<open>obj[key]\<close>; \<open>setprop\<close> is the assignment \<open>obj[key] = v\<close> and
  \<open>delprop\<close> is \<open>delete obj[key]\<close>, both in strict mode (the bodies of classes are strict
  code): assigning a property of a primitive raises TypeError.
\<close>

definition getprop :: "jsheap \<Rightarrow> jsval \<Rightarrow> string \<Rightarrow> jsval" where
  "getprop h obj k =
     (case obj of
        Ref a \<Rightarrow> (case map_of (props (h a)) k of Some v \<Rightarrow> v | None \<Rightarrow> Undefined)
      | _ \<Rightarrow> Undefined)"

definition setprop :: "jsheap \<Rightarrow> jsval \<Rightarrow> string \<Rightarrow> jsval \<Rightarrow> jserror + jsheap" where
  "setprop h obj k v =
     (case obj of
        Ref a \<Rightarrow> Inr (h(a := (h a)\<lparr>props := AList.update k v (props (h a))\<rparr>))
      | _ \<Rightarrow> Inl TypeError)"


section \<open>class NestProxy: the immutable part of a wrapper\<close>

text \<open>
  The constructor sets \<open>target\<close>, \<open>parent\<close> and \<open>key\<close> once and nothing assigns them
  again, so a wrapper carries them by value together with its identity \<open>wid\<close>; the mutable
  member \<open>subtrees\<close> is kept in the state of the view, by \<open>wid\<close>. The constructor stores
  \<open>key ? key : null\<close>: the empty property name becomes \<open>null\<close> (\<open>None\<close>).
\<close>

datatype nestproxy =
  NestProxy (wid: nat) (target: jsval) (parent: "nestproxy option") (key: "string option")





section \<open>class VidiView: state, render scheduler, handler\<close>

text \<open>
  What the view does that is visible from outside is recorded in \<open>trace\<close>: the calls of
  the handler made by a wrapper, the calls of the user's callbacks (watchers and hooks,
  whose bodies are not part of the program), the timers, and each run of \<open>dorender\<close>
  (whose body, the rendering of the template and the patching of the document, is modelled
  on its own in the sections on rendering below).
\<close>

datatype event =
    HWrite "string list" jsval
  | HErase "string list"
  | Watch string jsval
  | OnUpdate
  | OnCreate
  | DoRender
  | SetTimeout nat
  | ClearTimeout nat

record view =
  heap :: jsheap
  nxt :: addr
  data :: addr
  el :: jsval
  watch :: "string list"
  onupdate :: bool
  oncreate :: bool
  renderlock :: bool
  renderedOnce :: bool
  renderTimeout :: "nat option"
  timers :: nat
  subtrees :: "nat \<Rightarrow> (string \<times> nestproxy) list"
  wnext :: nat
  trace :: "event list"

definition emit :: "event \<Rightarrow> view \<Rightarrow> view" where
  "emit e s = s\<lparr>trace := trace s @ [e]\<rparr>"

text \<open>The closure \<open>dorender\<close> of \<open>render\<close>.\<close>

definition dorender :: "view \<Rightarrow> view" where
  "dorender s =
     (let s1 = emit DoRender s;
          s2 = (if truthy (el s1) then s1
                else s1\<lparr>heap := (heap s1)(nxt s1 := \<lparr>kind = DomElement, props = []\<rparr>),
                        el := Ref (nxt s1), nxt := nxt s1 + 1\<rparr>)
      in if \<not> renderedOnce s2
         then (if oncreate s2 then emit OnCreate s2 else s2)\<lparr>renderedOnce := True\<rparr>
         else s2)"

definition render :: "view \<Rightarrow> view" where
  "render s =
     (if renderlock s then s
      else
        let s1 = (if renderedOnce s \<and> onupdate s then emit OnUpdate s else s)
        in if \<not> renderedOnce s1 then dorender s1
           else
             let s2 = (case renderTimeout s1 of
                         Some t \<Rightarrow> emit (ClearTimeout t) s1
                       | None \<Rightarrow> s1)
             in (emit (SetTimeout (timers s2)) s2)
                  \<lparr>renderTimeout := Some (timers s2), timers := timers s2 + 1\<rparr>)"




text \<open>
  The loop of \<open>setPath\<close> and \<open>deletePath\<close> over all segments but the last; it throws
  \<open>new Error("Can not set key '" + key + "'")\<close>.
\<close>

definition invalid_path :: "string \<Rightarrow> jserror" where
  "invalid_path k = Error (''Can not set key '' @ [CHR 0x27] @ k @ [CHR 0x27])"

fun walk :: "jsheap \<Rightarrow> jsval \<Rightarrow> string list \<Rightarrow> jserror + jsval" where
  "walk h obj [] = Inr obj"
| "walk h obj (k # ks) =
     (if nullish (getprop h obj k) then Inl (invalid_path k)
      else walk h (getprop h obj k) ks)"

text \<open>\<open>key = path[idx]\<close> after the loop: of the empty path it is \<open>undefined\<close>.\<close>

definition last_key :: "string list \<Rightarrow> string" where
  "last_key path = (if path = [] then ''undefined'' else last path)"

definition setPath :: "view \<Rightarrow> jsval \<Rightarrow> string list \<Rightarrow> jsval \<Rightarrow> (jserror + bool) \<times> view" where
  "setPath s d path v =
     (let s1 = (if length path = 1 \<and> hd path \<in> set (watch s)
                then emit (Watch (hd path) v) s else s)
      in case walk (heap s1) (Ref (data s1)) (butlast path) of
           Inl e \<Rightarrow> (Inl e, s1)
         | Inr obj \<Rightarrow>
             if typeof (heap s1) v \<noteq> TObject \<and> getprop (heap s1) obj (last_key path) = v
             then (Inr True, s1)
             else (case setprop (heap s1) obj (last_key path) v of
                     Inl e \<Rightarrow> (Inl e, s1)
                   | Inr h \<Rightarrow> (Inr True, render (s1\<lparr>heap := h\<rparr>))))"




section \<open>class NestProxy: the traps\<close>












section \<open>Observations on a trace\<close>



text \<open>The renders started: a run of \<open>dorender\<close> or a timer set to run it.\<close>

fun is_start :: "event \<Rightarrow> bool" where
  "is_start DoRender = True"
| "is_start (SetTimeout t) = True"
| "is_start e = False"

definition starts :: "view \<Rightarrow> nat" where
  "starts s = length (filter is_start (trace s))"

section \<open>Rendering: values of the template scope and \<open>Vidi.checksum\<close>\<close>

text \<open>
  The renderer reads the model and never writes it, so the values it evaluates are trees:
  a function is its source text, a sequence the list of its elements, an object the list of
  its own enumerable properties in order. Numbers are integers and a character is one code
  unit below 256. \<open>to_string\<close> is \<open>String(v)\<close>, \<open>stringify\<close> is \<open>JSON.stringify(v)\<close>, which is
  \<open>undefined\<close> for \<open>undefined\<close> and for a function, and \<open>digits b n\<close> is \<open>n.toString(b)\<close> for
  \<open>n\<close> not negative.
\<close>

datatype jv = JUndefined | JNull | JBool bool | JNum int | JStr string | JFun string
  | JArr "jv list" | JObj "(string \<times> jv) list"

definition digit_char :: "int \<Rightarrow> char" where
  "digit_char d = ''0123456789abcdef'' ! nat d"

function digits :: "int \<Rightarrow> int \<Rightarrow> string" where
  "digits b n = (if b < 2 \<or> n < b then [digit_char n] else digits b (n div b) @ [digit_char (n mod b)])"
  by pat_completeness auto
termination
proof (relation "measure (\<lambda>(b, n). nat n)")
  show "wf (measure (\<lambda>(b, n). nat n))" by simp
next
  fix b n :: int
  assume "\<not> (b < 2 \<or> n < b)"
  then have "2 \<le> b" "b \<le> n" by simp_all
  then have "n div b < n" by (simp add: int_div_less_self)
  moreover have "0 < n" using \<open>2 \<le> b\<close> \<open>b \<le> n\<close> by simp
  ultimately show "((b, n div b), (b, n)) \<in> measure (\<lambda>(b, n). nat n)" by simp
qed

declare digits.simps [simp del]

definition show_int :: "int \<Rightarrow> string" where
  "show_int i = (if i < 0 then ''-'' @ digits 10 (- i) else digits 10 i)"

fun join :: "string \<Rightarrow> string list \<Rightarrow> string" where
  "join sep [] = []"
| "join sep [x] = x"
| "join sep (x # y # ys) = x @ sep @ join sep (y # ys)"

fun to_string :: "jv \<Rightarrow> string" where
  "to_string JUndefined = ''undefined''"
| "to_string JNull = ''null''"
| "to_string (JBool b) = (if b then ''true'' else ''false'')"
| "to_string (JNum n) = show_int n"
| "to_string (JStr t) = t"
| "to_string (JFun src) = src"
| "to_string (JArr xs) = join '','' (map (\<lambda>x. if x = JUndefined \<or> x = JNull then [] else to_string x) xs)"
| "to_string (JObj kvs) = ''[object Object]''"

definition quote_char :: "char \<Rightarrow> string" where
  "quote_char c =
     (if c = CHR 0x22 then [CHR 0x5C, CHR 0x22]
      else if c = CHR 0x5C then [CHR 0x5C, CHR 0x5C]
      else if c = CHR 0x08 then [CHR 0x5C, CHR ''b'']
      else if c = CHR 0x09 then [CHR 0x5C, CHR ''t'']
      else if c = CHR 0x0A then [CHR 0x5C, CHR ''n'']
      else if c = CHR 0x0C then [CHR 0x5C, CHR ''f'']
      else if c = CHR 0x0D then [CHR 0x5C, CHR ''r'']
      else if (of_char c :: nat) < 32
        then [CHR 0x5C, CHR ''u'', CHR ''0'', CHR ''0'',
              digit_char (int (of_char c) div 16), digit_char (int (of_char c) mod 16)]
      else [c])"

definition json_quote :: "string \<Rightarrow> string" where
  "json_quote t = [CHR 0x22] @ concat (map quote_char t) @ [CHR 0x22]"

fun stringify :: "jv \<Rightarrow> string option" where
  "stringify JUndefined = None"
| "stringify (JFun src) = None"
| "stringify JNull = Some ''null''"
| "stringify (JBool b) = Some (if b then ''true'' else ''false'')"
| "stringify (JNum n) = Some (show_int n)"
| "stringify (JStr t) = Some (json_quote t)"
| "stringify (JArr xs) =
     Some (''['' @ join '','' (map (\<lambda>x. case stringify x of None \<Rightarrow> ''null'' | Some t \<Rightarrow> t) xs) @ '']'')"
| "stringify (JObj kvs) =
     Some (''{'' @ join '','' (concat (map (\<lambda>(k, x). case stringify x of None \<Rightarrow> []
                | Some t \<Rightarrow> [json_quote k @ '':'' @ t]) kvs)) @ ''}'')"

text \<open>\<open>typeof (v) == "object"\<close>\<close>

definition is_object :: "jv \<Rightarrow> bool" where
  "is_object v = (case v of JNull \<Rightarrow> True | JArr xs \<Rightarrow> True | JObj kvs \<Rightarrow> True | _ \<Rightarrow> False)"

text \<open>
  \<open>Vidi.checksum\<close>. \<open>to_int32\<close> is the conversion to a signed 32-bit integer that \<open><<\<close> and
  \<open>|= 0\<close> perform; \<open>hash_step\<close> is the body of the loop over the characters.
\<close>

definition to_int32 :: "int \<Rightarrow> int" where
  "to_int32 x = (x + 2147483648) mod 4294967296 - 2147483648"

definition hash_step :: "int \<Rightarrow> char \<Rightarrow> int" where
  "hash_step hash chr = to_int32 ((to_int32 (hash * 32) - hash) + int (of_char chr))"

definition pad_start :: "nat \<Rightarrow> char \<Rightarrow> string \<Rightarrow> string" where
  "pad_start n c t = replicate (n - length t) c @ t"

definition hash_of :: "string \<Rightarrow> int" where
  "hash_of s = foldl hash_step 0 s"

definition checksum :: "jv \<Rightarrow> string" where
  "checksum str =
     (let s = (if is_object str then (case stringify str of Some t \<Rightarrow> t | None \<Rightarrow> ''undefined'')
               else to_string str);
          hash = hash_of s;
          hash' = (if hash < 0 then - (hash - 1) else hash);
          code = pad_start 8 (CHR ''0'') (digits 16 hash')
      in take 4 code @ ''-'' @ drop 4 code)"



section \<open>Rendering: the document\<close>

text \<open>
  A node of the document is a tree. An element has a tag name, attributes in the order of
  \<open>getAttributeNames\<close>, child nodes, the property \<open>value\<close> (a string, or \<open>undefined\<close> when it
  has none), the mark left by \<open>style.display = "none"\<close>, and its event listeners, each with
  the name of the event. \<open>nid\<close> is the identity of the node object. Attribute names are
  kept as written.
\<close>

datatype listener =
    ModelBinding string "string option" "(string \<times> jv) list"
  | EventHandler string "(string \<times> jv) list"

datatype node =
    Element nat string "(string \<times> string) list" "node list" "string option" bool
            "(string \<times> listener) list"
  | TextNode nat string
  | CommentNode nat string

fun nid :: "node \<Rightarrow> nat" where
  "nid (Element i tag attrs cs v h ls) = i"
| "nid (TextNode i t) = i"
| "nid (CommentNode i t) = i"

fun nodeType :: "node \<Rightarrow> nat" where
  "nodeType (Element i tag attrs cs v h ls) = 1"
| "nodeType (TextNode i t) = 3"
| "nodeType (CommentNode i t) = 8"

fun tagName :: "node \<Rightarrow> string option" where
  "tagName (Element i tag attrs cs v h ls) = Some tag"
| "tagName n = None"

fun attributes :: "node \<Rightarrow> (string \<times> string) list" where
  "attributes (Element i tag attrs cs v h ls) = attrs"
| "attributes n = []"

fun childNodes :: "node \<Rightarrow> node list" where
  "childNodes (Element i tag attrs cs v h ls) = cs"
| "childNodes n = []"

fun nvalue :: "node \<Rightarrow> string option" where
  "nvalue (Element i tag attrs cs v h ls) = v"
| "nvalue n = None"

fun is_element :: "node \<Rightarrow> bool" where
  "is_element (Element i tag attrs cs v h ls) = True"
| "is_element n = False"

fun is_comment :: "node \<Rightarrow> bool" where
  "is_comment (CommentNode i t) = True"
| "is_comment n = False"

definition childElementCount :: "node \<Rightarrow> nat" where
  "childElementCount n = length (filter is_element (childNodes n))"

fun textContent :: "node \<Rightarrow> string" where
  "textContent (Element i tag attrs cs v h ls) =
     concat (map (\<lambda>c. if is_comment c then [] else textContent c) cs)"
| "textContent (TextNode i t) = t"
| "textContent (CommentNode i t) = t"

definition getAttribute :: "node \<Rightarrow> string \<Rightarrow> string option" where
  "getAttribute n a = map_of (attributes n) a"

text \<open>\<open>if (x)\<close> for the result of \<open>getAttribute\<close>: neither \<open>null\<close> nor the empty string.\<close>

definition present :: "string option \<Rightarrow> bool" where
  "present x = (case x of None \<Rightarrow> False | Some t \<Rightarrow> t \<noteq> [])"

definition attr_text :: "string option \<Rightarrow> string" where
  "attr_text x = (case x of None \<Rightarrow> [] | Some t \<Rightarrow> t)"

fun set_attributes :: "(string \<times> string) list \<Rightarrow> node \<Rightarrow> node" where
  "set_attributes attrs' (Element i tag attrs cs v h ls) = Element i tag attrs' cs v h ls"
| "set_attributes attrs' n = n"

fun set_children :: "node list \<Rightarrow> node \<Rightarrow> node" where
  "set_children cs' (Element i tag attrs cs v h ls) = Element i tag attrs cs' v h ls"
| "set_children cs' n = n"

fun set_value :: "string option \<Rightarrow> node \<Rightarrow> node" where
  "set_value v' (Element i tag attrs cs v h ls) = Element i tag attrs cs v' h ls"
| "set_value v' n = n"

fun set_hidden :: "node \<Rightarrow> node" where
  "set_hidden (Element i tag attrs cs v h ls) = Element i tag attrs cs v True ls"
| "set_hidden n = n"

text \<open>\<open>document.createElement(tag)\<close>, with the identity of the new node.\<close>

definition createElement :: "nat \<Rightarrow> string \<Rightarrow> node" where
  "createElement i tag = Element i tag [] [] None False []"

section \<open>Rendering: compareNodes\<close>

text \<open>
  \<open>while (left.childNodes.length < rl) left.appendChild(document.createElement("div"))\<close>:
  \<open>append_fillers k i cs\<close> appends \<open>k\<close> new elements, the first with identity \<open>i\<close>.
\<close>

fun append_fillers :: "nat \<Rightarrow> nat \<Rightarrow> node list \<Rightarrow> node list" where
  "append_fillers 0 i cs = cs"
| "append_fillers (Suc k) i cs = append_fillers k (Suc i) (cs @ [createElement i ''DIV''])"

text \<open>The body of both loops over attribute names.\<close>

definition sync_attribute :: "(string \<times> string) list \<Rightarrow> (string \<times> string) list \<Rightarrow> string \<Rightarrow> (string \<times> string) list" where
  "sync_attribute rattrs lattrs a =
     (if map_of lattrs a \<noteq> map_of rattrs a
      then (case map_of rattrs a of
              None \<Rightarrow> AList.delete a lattrs
            | Some v \<Rightarrow> AList.update a v lattrs)
      else lattrs)"

text \<open>
  \<open>compareNodes (left, right)\<close> changes \<open>left\<close> in place and creates elements; the model takes
  the next free identity and returns the answer, \<open>left\<close> as it is afterwards, and the next
  free identity. The body is in two parts: \<open>resize_children\<close> is the statement
  \<open>if (ll < rl) ... else if (ll > rl) ...\<close>, with \<open>None\<close> for its three \<open>return false\<close>, and
  \<open>compare_content\<close> is what follows it, from the test of \<open>childElementCount\<close> to the end.
\<close>

definition resize_children :: "nat \<Rightarrow> node \<Rightarrow> nat \<Rightarrow> (node \<times> nat) option" where
  "resize_children fr left rl =
     (let ll = length (childNodes left)
      in if ll < rl then
           (if ll = 0 then None
            else if ll > 100 then None
            else Some (set_children (append_fillers (rl - ll) fr (childNodes left)) left,
                       fr + (rl - ll)))
         else if ll > rl then
           (if ll > 100 then None
            else Some (set_children (take rl (childNodes left)) left, fr))
         else Some (left, fr))"

definition compare_content :: "nat \<Rightarrow> node \<Rightarrow> node \<Rightarrow> bool \<times> node \<times> nat" where
  "compare_content fr1 left1 right =
     (if childElementCount left1 = 0 \<and> textContent left1 \<noteq> textContent right
      then (False, left1, fr1)
      else
        let left2 = (if nvalue left1 \<noteq> nvalue right then set_value (nvalue right) left1
                     else left1)
        in if nodeType left2 = 1 then
             (let lefteventid = getAttribute left2 ''v-eventid'';
                  righteventid = getAttribute right ''v-eventid''
              in if (present lefteventid \<or> present righteventid)
                    \<and> lefteventid \<noteq> righteventid
                 then (False, left2, fr1)
                 else
                   (True,
                    set_attributes
                      (foldl (sync_attribute (attributes right))
                         (foldl (sync_attribute (attributes right)) (attributes left2)
                            (map fst (attributes left2)))
                         (map fst (attributes right)))
                      left2,
                    fr1))
           else (True, left2, fr1))"

definition compareNodes :: "nat \<Rightarrow> node \<Rightarrow> node \<Rightarrow> bool \<times> node \<times> nat" where
  "compareNodes fr left right =
     (if nodeType left \<noteq> nodeType right then (False, left, fr)
      else if tagName left \<noteq> tagName right then (False, left, fr)
      else if is_element left \<and> getAttribute left ''v-static'' = Some ''keep'' then (True, left, fr)
      else
        (case resize_children fr left (length (childNodes right)) of
           None \<Rightarrow> (False, left, fr)
         | Some (left1, fr1) \<Rightarrow> compare_content fr1 left1 right))"

section \<open>Rendering: scope, evaluator, diagnostics\<close>

text \<open>
  The evaluator of the language, \<open>eval\<close> applied to the source that \<open>VidiView.eval\<close> builds,
  the operator \<open>==\<close> and the parser behind \<open>innerHTML\<close> belong to the platform and are
  parameters. Evaluating an expression is taken to change nothing. \<open>js_eval\<close> returns the
  value, or the exception with its name, its message, the expression as rewritten and the
  source built from it.
\<close>

datatype evalerror = EvalError string string string string

fun ename :: "evalerror \<Rightarrow> string" where
  "ename (EvalError n m t x) = n"

fun emessage :: "evalerror \<Rightarrow> string" where
  "emessage (EvalError n m t x) = m"

fun etext :: "evalerror \<Rightarrow> string" where
  "etext (EvalError n m t x) = t"

fun eexpanded :: "evalerror \<Rightarrow> string" where
  "eexpanded (EvalError n m t x) = x"

record platform =
  js_eval :: "string \<Rightarrow> (string \<times> jv) list \<Rightarrow> bool \<Rightarrow> evalerror + jv"
  loose_eq :: "jv \<Rightarrow> jv \<Rightarrow> bool"
  parse_html :: "string \<Rightarrow> nat \<Rightarrow> node list \<times> nat"

text \<open>
  An entry of \<open>self.$loopcache\<close>, and what a render reads and changes: the id of the view,
  the top level of the model as the render finds it, the loop cache, the next free node
  identity, the texts given to \<open>Vidi.warn\<close>, and the registries \<open>Vidi.components\<close> (by name,
  the member \<open>functions\<close>) and \<open>Vidi.instances\<close>.
\<close>

record cache =
  datachk :: string
  elements :: "node list"

record component_instance =
  is_bound :: bool
  has_construct :: bool
  as_value :: jv

record rstate =
  view_id :: string
  model :: "(string \<times> jv) list"
  loopcache :: "(string \<times> cache) list"
  fresh :: nat
  warns :: "string list"
  components :: "(string \<times> jv) list"
  instances :: "(string \<times> (string \<times> component_instance) list) list"
  constructed :: "(string \<times> string) list"

definition warn :: "string \<Rightarrow> rstate \<Rightarrow> rstate" where
  "warn str s = s\<lparr>warns := warns s @ [str]\<rparr>"

definition lookup :: "(string \<times> jv) list \<Rightarrow> string \<Rightarrow> jv" where
  "lookup obj k = (case map_of obj k of Some v \<Rightarrow> v | None \<Rightarrow> JUndefined)"

fun truthy_jv :: "jv \<Rightarrow> bool" where
  "truthy_jv JUndefined = False"
| "truthy_jv JNull = False"
| "truthy_jv (JBool b) = b"
| "truthy_jv (JNum n) = (n \<noteq> 0)"
| "truthy_jv (JStr t) = (t \<noteq> [])"
| "truthy_jv v = True"

definition eval_expr :: "platform \<Rightarrow> string \<Rightarrow> (string \<times> jv) list \<Rightarrow> bool \<Rightarrow> rstate \<Rightarrow> jv \<times> rstate" where
  "eval_expr P e tempvars noreturn s =
     (if lookup tempvars e \<noteq> JUndefined then (lookup tempvars e, s)
      else if lookup (model s) e \<noteq> JUndefined then (lookup (model s) e, s)
      else
        (case js_eval P e tempvars noreturn of
           Inr v \<Rightarrow> (v, s)
         | Inl err \<Rightarrow>
             (JNull,
              if ename err = ''ReferenceError''
              then warn (''Template for '' @ [CHR 0x27] @ ''#'' @ view_id s @ [CHR 0x27] @
                         '' references a variable not in its model: '' @ emessage err) s
              else warn (''expanded: '' @ eexpanded err)
                     (warn (''text: '' @ etext err)
                        (warn (''Parse error in '' @ [CHR 0x27] @ ''#'' @ view_id s @ [CHR 0x27] @
                               '': '' @ emessage err) s)))))"

text \<open>
  \<open>parseMoustache\<close>: \<open>str.replace(/{{\s?([^}]*)\s?}}/g, ...)\<close>. Neither \<open>\s?\<close> nor \<open>[^}]*\<close>
  takes a closing brace, so a match starts at two opening braces and ends at the first
  closing brace after them, which must be followed by a second one; the function is given
  the match and evaluates what lies between the braces. \<open>moustache_end\<close> looks for that end
  and returns the text before it and the text after the match.
\<close>

fun moustache_end :: "string \<Rightarrow> (string \<times> string) option" where
  "moustache_end [] = None"
| "moustache_end (c # cs) =
     (if c = CHR ''}''
      then (case cs of [] \<Rightarrow> None | d # rest \<Rightarrow> if d = CHR ''}'' then Some ([], rest) else None)
      else (case moustache_end cs of None \<Rightarrow> None | Some (src, rest) \<Rightarrow> Some (c # src, rest)))"

definition match_span :: "string \<Rightarrow> (string \<times> string) option" where
  "match_span str =
     (case str of
        c # d # cs \<Rightarrow> if c = CHR ''{'' \<and> d = CHR ''{'' then moustache_end cs else None
      | _ \<Rightarrow> None)"

text \<open>The function given to \<open>replace\<close>; its result is converted to a string.\<close>

definition moustache_value :: "platform \<Rightarrow> string \<Rightarrow> (string \<times> jv) list \<Rightarrow> rstate \<Rightarrow> string \<times> rstate" where
  "moustache_value P src tempvars s =
     (case eval_expr P src tempvars False s of
        (res, s1) \<Rightarrow>
          if res = JNull \<or> res = JUndefined then (to_string res, s1)
          else if \<not> is_object res then (to_string res, s1)
          else (''[Object]'', warn (''[Vidi] got an object when evaluating {{'' @ src @ ''}}'') s1))"

lemma moustache_end_length: "moustache_end cs = Some (src, rest) \<Longrightarrow> length rest < length cs"
  by (induction cs arbitrary: src rest) (auto split: if_splits list.splits option.splits)

lemma match_span_length: "match_span str = Some (src, rest) \<Longrightarrow> length rest < length str"
  by (auto simp: match_span_def split: list.splits if_splits dest: moustache_end_length)

function parseMoustache :: "platform \<Rightarrow> string \<Rightarrow> (string \<times> jv) list \<Rightarrow> rstate \<Rightarrow> string \<times> rstate" where
  "parseMoustache P str tempvars s =
     (case str of
        [] \<Rightarrow> ([], s)
      | c # cs \<Rightarrow>
          (case match_span str of
             Some (src, rest) \<Rightarrow>
               (case moustache_value P src tempvars s of
                  (r, s1) \<Rightarrow> (case parseMoustache P rest tempvars s1 of (out, s2) \<Rightarrow> (r @ out, s2)))
           | None \<Rightarrow> (case parseMoustache P cs tempvars s of (out, s1) \<Rightarrow> (c # out, s1))))"
  by pat_completeness auto
termination
  by (relation "measure (\<lambda>(P, str, tempvars, s). length str)")
     (auto dest: match_span_length)

declare parseMoustache.simps [simp del]

section \<open>Rendering: helpers of cloneElement\<close>

definition startsWith :: "string \<Rightarrow> string \<Rightarrow> bool" where
  "startsWith t pre = (take (length pre) t = pre)"

definition endsWith :: "string \<Rightarrow> string \<Rightarrow> bool" where
  "endsWith t suf = (length suf \<le> length t \<and> drop (length t - length suf) t = suf)"

text \<open>\<open>t.indexOf(sub) >= 0\<close>\<close>

fun contains :: "string \<Rightarrow> string \<Rightarrow> bool" where
  "contains [] sub = (sub = [])"
| "contains (c # cs) sub = (startsWith (c # cs) sub \<or> contains cs sub)"

text \<open>\<open>t.split(sep)\<close> for a separator that is not empty.\<close>

function split_str :: "string \<Rightarrow> string \<Rightarrow> string list" where
  "split_str t sep =
     (case t of
        [] \<Rightarrow> [[]]
      | c # cs \<Rightarrow>
          if sep \<noteq> [] \<and> startsWith t sep then [] # split_str (drop (length sep) t) sep
          else (case split_str cs sep of [] \<Rightarrow> [[c]] | w # ws \<Rightarrow> (c # w) # ws))"
  by pat_completeness auto
termination
  by (relation "measure (\<lambda>(t, sep). length t)") auto

declare split_str.simps [simp del]

definition toLowerCase :: "string \<Rightarrow> string" where
  "toLowerCase t =
     map (\<lambda>c. if (65::nat) \<le> of_char c \<and> (of_char c :: nat) \<le> 90
               then char_of (of_char c + (32::nat)) else c) t"

text \<open>
  Reading a property of a value of the scope. An index is a decimal numeral without
  leading zero.
\<close>

definition index_of :: "string \<Rightarrow> nat option" where
  "index_of k =
     (if k = [] \<or> (\<exists>c \<in> set k. (of_char c :: nat) < 48 \<or> (57::nat) < of_char c) \<or> (length k > 1 \<and> hd k = CHR ''0'')
      then None
      else Some (foldl (\<lambda>n c. 10 * n + (of_char c - 48)) 0 k))"

definition getprop_jv :: "jv \<Rightarrow> string \<Rightarrow> jv" where
  "getprop_jv obj k =
     (case obj of
        JObj kvs \<Rightarrow> lookup kvs k
      | JArr xs \<Rightarrow>
          (if k = ''length'' then JNum (int (length xs))
           else (case index_of k of
                   Some i \<Rightarrow> if i < length xs then xs ! i else JUndefined
                 | None \<Rightarrow> JUndefined))
      | JStr t \<Rightarrow>
          (if k = ''length'' then JNum (int (length t))
           else (case index_of k of
                   Some i \<Rightarrow> if i < length t then JStr [t ! i] else JUndefined
                 | None \<Rightarrow> JUndefined))
      | _ \<Rightarrow> JUndefined)"

text \<open>The names that \<open>for (let k in v)\<close> runs through.\<close>

definition forin_keys :: "jv \<Rightarrow> string list" where
  "forin_keys v =
     (case v of
        JObj kvs \<Rightarrow> map fst kvs
      | JArr xs \<Rightarrow> map (\<lambda>i. digits 10 (int i)) [0..<length xs]
      | JStr t \<Rightarrow> map (\<lambda>i. digits 10 (int i)) [0..<length t]
      | _ \<Rightarrow> [])"

text \<open>\<open>getChild (obj, index)\<close> with its local function \<open>get\<close>; \<open>self.view\<close> reads the model.\<close>

fun get_keys :: "jv \<Rightarrow> string list \<Rightarrow> jv" where
  "get_keys crsr [] = crsr"
| "get_keys crsr (k # ks) =
     (if \<not> truthy_jv (getprop_jv crsr k) then getprop_jv crsr k
      else get_keys (getprop_jv crsr k) ks)"

definition get_index :: "jv \<Rightarrow> string \<Rightarrow> jv" where
  "get_index obj index =
     (if \<not> contains index ''.'' then getprop_jv obj index
      else get_keys obj (split_str index ''.''))"

definition view_object :: "rstate \<Rightarrow> jv" where
  "view_object s = JObj (AList.update ''$isView'' (JBool True) (model s))"

definition getChild :: "rstate \<Rightarrow> (string \<times> jv) list \<Rightarrow> string \<Rightarrow> jv" where
  "getChild s obj index =
     (if get_index (JObj obj) index = JUndefined then get_index (view_object s) index
      else get_index (JObj obj) index)"

text \<open>
  What the loop over the attributes in \<open>cloneElement\<close> builds: the attributes and listeners
  of \<open>nw\<close>, and the variables \<open>innerhtml\<close>, \<open>setvalue\<close> and \<open>checksumstr\<close>.
\<close>

record cloning =
  nw_attributes :: "(string \<times> string) list"
  nw_listeners :: "(string \<times> listener) list"
  innerhtml :: jv
  setvalue :: jv
  checksumstr :: string

definition setAttribute :: "string \<Rightarrow> string \<Rightarrow> cloning \<Rightarrow> cloning" where
  "setAttribute a v c = c\<lparr>nw_attributes := AList.update a v (nw_attributes c)\<rparr>"

definition removeAttribute :: "string \<Rightarrow> cloning \<Rightarrow> cloning" where
  "removeAttribute a c = c\<lparr>nw_attributes := AList.delete a (nw_attributes c)\<rparr>"

definition addEventListener :: "string \<Rightarrow> listener \<Rightarrow> cloning \<Rightarrow> cloning" where
  "addEventListener ev l c = c\<lparr>nw_listeners := nw_listeners c @ [(ev, l)]\<rparr>"

text \<open>\<open>case "v-model"\<close>\<close>

definition clone_v_model :: "platform \<Rightarrow> node \<Rightarrow> (string \<times> jv) list \<Rightarrow> string \<Rightarrow> cloning \<Rightarrow> rstate \<Rightarrow> cloning \<times> rstate" where
  "clone_v_model P orig tempvars val c s =
     (let curval = getChild s tempvars val;
          evid = (if tagName orig = Some ''SELECT'' then ''change'' else ''input'');
          inputtype = (if tagName orig = Some ''INPUT''
                       then (if present (getAttribute orig ''type'')
                             then map_option toLowerCase (getAttribute orig ''type'')
                             else getAttribute orig ''type'')
                       else None);
          toggles = (inputtype = Some ''checkbox'' \<or> inputtype = Some ''radio'');
          evid1 = (if toggles then ''change'' else evid);
          radio = (inputtype = Some ''radio'');
          sv = (if radio then (case nvalue orig of None \<Rightarrow> JUndefined | Some t \<Rightarrow> JStr t)
                else curval);
          c1 = (if radio
                then (if loose_eq P sv curval then setAttribute ''checked'' [] c
                      else removeAttribute ''checked'' c)
                else c)
      in ((addEventListener evid1 (ModelBinding val inputtype tempvars) c1)
            \<lparr>setvalue := sv, checksumstr := checksumstr c1 @ ''//'' @ val\<rparr>, s))"

text \<open>\<open>case "v-on"\<close>\<close>

definition clone_v_on :: "platform \<Rightarrow> (string \<times> jv) list \<Rightarrow> string \<Rightarrow> string \<Rightarrow> cloning \<Rightarrow> rstate \<Rightarrow> cloning \<times> rstate" where
  "clone_v_on P tempvars a val c s =
     (case (if contains val ''{{'' then parseMoustache P val tempvars s else (val, s)) of
        (val1, s1) \<Rightarrow>
          ((addEventListener (drop 5 a) (EventHandler val1 tempvars) c)
             \<lparr>checksumstr := checksumstr c @ ''//'' @ val1\<rparr>, s1))"

text \<open>\<open>case "v-bind"\<close>\<close>

definition clone_v_bind :: "platform \<Rightarrow> node \<Rightarrow> (string \<times> jv) list \<Rightarrow> string \<Rightarrow> string \<Rightarrow> cloning \<Rightarrow> rstate \<Rightarrow> cloning \<times> rstate" where
  "clone_v_bind P orig tempvars a val c s =
     (let bindto = drop 7 a
      in case (if contains val ''{{'' then parseMoustache P val tempvars s else (val, s)) of
           (val1, s1) \<Rightarrow>
             (case eval_expr P val1 tempvars False s1 of
                (res, s2) \<Rightarrow>
                  let v = (if startsWith val1 ''{'' \<and> endsWith val1 ''}''
                           then JStr (join '' '' (filter (\<lambda>k. truthy_jv (getprop_jv res k)) (forin_keys res)))
                           else res)
                  in if v \<noteq> JBool False \<and> v \<noteq> JUndefined then
                       (if v = JBool True then (setAttribute bindto [] c, s2)
                        else if present (getAttribute orig bindto)
                        then (setAttribute bindto (attr_text (getAttribute orig bindto) @ '' '' @ to_string v) c, s2)
                        else (setAttribute bindto (to_string v) c, s2))
                     else if v = JBool False then (removeAttribute bindto c, s2)
                     else (c, s2)))"

text \<open>
  The body of the loop \<open>for (let a of orig.getAttributeNames())\<close>, given the name and
  \<open>orig.getAttribute (a)\<close>.
\<close>

definition clone_attribute :: "platform \<Rightarrow> node \<Rightarrow> (string \<times> jv) list \<Rightarrow> cloning \<times> rstate \<Rightarrow> string \<times> string \<Rightarrow> cloning \<times> rstate" where
  "clone_attribute P orig tempvars cs attr =
     (case (cs, attr) of
        ((c, s), (a0, val)) \<Rightarrow>
          let a = (if startsWith a0 '':'' then ''v-bind'' @ a0 else a0)
          in if startsWith a ''v-'' then
               (let attrbase = hd (split_str a '':'')
                in if attrbase = ''v-model'' then clone_v_model P orig tempvars val c s
                   else if attrbase = ''v-on'' then clone_v_on P tempvars a val c s
                   else if attrbase = ''v-bind'' then clone_v_bind P orig tempvars a val c s
                   else if attrbase = ''v-html''
                     then (case eval_expr P val tempvars False s of
                             (res, s1) \<Rightarrow> (c\<lparr>innerhtml := res\<rparr>, s1))
                   else if attrbase = ''v-component'' \<or> attrbase = ''v-static''
                     then (setAttribute a val c, s)
                   else if attrbase \<in> {''v-if'', ''v-for'', ''v-eventid'', ''v-show'', ''v-instance''}
                     then (c, s)
                   else (c, warn (''Unknown v-attribute: '' @ a) s))
             else
               (case (if startsWith val ''{{'' then parseMoustache P val tempvars s else (val, s)) of
                  (val1, s1) \<Rightarrow>
                    (if \<not> present (getAttribute orig (''v-bind:'' @ a)) then setAttribute a val1 c else c,
                     s1)))"

text \<open>
  After the loop: the event id, \<open>Vidi.checksum\<close> of the collected listener sources and of
  the scope without the names that start with a dollar sign.
\<close>

definition stamp_eventid :: "(string \<times> jv) list \<Rightarrow> cloning \<Rightarrow> cloning" where
  "stamp_eventid tempvars c =
     (if checksumstr c \<noteq> [] then
        (let tv = filter (\<lambda>(k, v). \<not> startsWith k ''$'') tempvars;
             str = checksumstr c @ ''//'' @ (case stringify (JObj tv) of Some t \<Rightarrow> t | None \<Rightarrow> ''undefined'')
         in setAttribute ''v-eventid'' (checksum (JStr str)) (c\<lparr>checksumstr := str\<rparr>))
      else c)"

text \<open>
  The start of \<open>cloneElement\<close>: the component and instance of an element that heads a
  component are put into the scope, which is the caller's object. Reading a member of an
  instance that is not registered raises TypeError.
\<close>

definition bind_component :: "node \<Rightarrow> (string \<times> jv) list \<Rightarrow> rstate \<Rightarrow> (jserror + (string \<times> jv) list) \<times> rstate" where
  "bind_component orig tempvars s =
     (if \<not> present (getAttribute orig ''v-component'') then (Inr tempvars, s)
      else
        let vcomp = attr_text (getAttribute orig ''v-component'')
        in case map_of (components s) vcomp of
             None \<Rightarrow> (Inr tempvars, s)
           | Some functions \<Rightarrow>
               let tv1 = AList.update ''$component'' functions tempvars
               in if \<not> present (getAttribute orig ''v-instance'') then (Inr tv1, s)
                  else
                    let vinstance = attr_text (getAttribute orig ''v-instance'')
                    in case map_of (instances s) vcomp of
                         None \<Rightarrow> (Inl TypeError, s)
                       | Some insts \<Rightarrow>
                           (case map_of insts vinstance of
                              None \<Rightarrow> (Inl TypeError, s)
                            | Some inst \<Rightarrow>
                                let s1 = (if \<not> is_bound inst
                                          then s\<lparr>instances := AList.update vcomp
                                                   (AList.update vinstance (inst\<lparr>is_bound := True\<rparr>) insts)
                                                   (instances s),
                                                 constructed := constructed s @
                                                   (if has_construct inst then [(vcomp, vinstance)] else [])\<rparr>
                                          else s)
                                in (Inr (AList.update ''$instance'' (as_value inst) tv1), s1)))"

section \<open>Rendering: renderTemplate and cloneElement\<close>

text \<open>
  \<open>let data = self.eval(loopval, tempvars)\<close>, where \<open>loopval\<close> is the second part of the
  attribute split at \<open>" in "\<close>. When there is no second part, \<open>eval\<close> is given \<open>undefined\<close>,
  looks it up as a name, and then raises TypeError at \<open>e.indexOf\<close> or \<open>e.replace\<close>.
\<close>

definition eval_loopval :: "platform \<Rightarrow> string list \<Rightarrow> (string \<times> jv) list \<Rightarrow> rstate \<Rightarrow> (jserror + jv) \<times> rstate" where
  "eval_loopval P parts tempvars s =
     (case parts of
        p0 # loopval # ps \<Rightarrow> (case eval_expr P loopval tempvars False s of (v, s1) \<Rightarrow> (Inr v, s1))
      | _ \<Rightarrow>
          if lookup tempvars ''undefined'' \<noteq> JUndefined then (Inr (lookup tempvars ''undefined''), s)
          else if lookup (model s) ''undefined'' \<noteq> JUndefined then (Inr (lookup (model s) ''undefined''), s)
          else (Inl TypeError, s))"

text \<open>\<open>self.$loopcache[loopfor].elements.push (elm)\<close>\<close>

definition cache_push :: "string \<Rightarrow> node \<Rightarrow> rstate \<Rightarrow> (jserror + bool) \<times> rstate" where
  "cache_push loopfor elm s =
     (case map_of (loopcache s) loopfor of
        None \<Rightarrow> (Inl TypeError, s)
      | Some c \<Rightarrow>
          (Inr True, s\<lparr>loopcache := AList.update loopfor (c\<lparr>elements := elements c @ [elm]\<rparr>) (loopcache s)\<rparr>))"

text \<open>
  The names in the first part of the attribute \<open>v-for\<close>: \<open>indexvar\<close>, \<open>countvar\<close> and
  \<open>loopvar\<close>. \<open>split[0].substr(1, split[0].length - 2)\<close> drops the parentheses.
\<close>

definition loop_vars :: "string list \<Rightarrow> string option \<times> string option \<times> string" where
  "loop_vars parts =
     (let part0 = (if startsWith (hd parts) ''(''
                   then take (length (hd parts) - 2) (drop 1 (hd parts))
                   else hd parts);
          rsplit = split_str part0 '','';
          loopvar = hd rsplit;
          indexvar = (if length rsplit > 1 then Some (rsplit ! 1) else None);
          countvar = (if length rsplit > 2 then Some (rsplit ! 2) else None)
      in (indexvar, countvar, loopvar))"

text \<open>The scope of one iteration: \<open>indexvar\<close>, \<open>countvar\<close> and \<open>loopvar\<close> bound in a copy.\<close>

definition loop_scope :: "string option \<times> string option \<times> string \<Rightarrow> jv \<Rightarrow> string \<Rightarrow> int \<Rightarrow> (string \<times> jv) list \<Rightarrow> (string \<times> jv) list" where
  "loop_scope vars coll i index tempvars =
     (case vars of
        (indexvar, countvar, loopvar) \<Rightarrow>
          let tv1 = (if present indexvar then AList.update (attr_text indexvar) (JStr i) tempvars else tempvars);
              tv2 = (if present countvar then AList.update (attr_text countvar) (JNum index) tv1 else tv1)
          in AList.update loopvar (getprop_jv coll i) tv2)"

text \<open>
  \<open>renderTemplate (into, orig, tempvars)\<close> appends to the children of \<open>into\<close>, which is what
  the model is given and returns, with the scope (an object that \<open>cloneElement\<close> may
  change). A node appended is put last; that \<open>appendChild\<close> takes a node out of a parent it
  had before is outside what is modelled here. \<open>render_children\<close> is the loop over
  \<open>orig.childNodes\<close> in \<open>cloneElement\<close>, \<open>render_loop\<close> the loop \<open>for (let i in data)\<close> with
  the counter \<open>index\<close>.
\<close>

lemma size_childNodes: "size_list size (childNodes orig) \<le> size orig"
  by (cases orig) simp_all

function renderTemplate :: "platform \<Rightarrow> node list \<Rightarrow> node \<Rightarrow> (string \<times> jv) list \<Rightarrow> rstate \<Rightarrow> (jserror + node list \<times> (string \<times> jv) list) \<times> rstate"
and appendClone :: "platform \<Rightarrow> node list \<Rightarrow> node \<Rightarrow> (string \<times> jv) list \<Rightarrow> bool \<Rightarrow> rstate \<Rightarrow> (jserror + node list \<times> node \<times> (string \<times> jv) list) \<times> rstate"
and cloneElement :: "platform \<Rightarrow> node \<Rightarrow> (string \<times> jv) list \<Rightarrow> rstate \<Rightarrow> (jserror + node \<times> (string \<times> jv) list) \<times> rstate"
and render_children :: "platform \<Rightarrow> node list \<Rightarrow> node list \<Rightarrow> (string \<times> jv) list \<Rightarrow> rstate \<Rightarrow> (jserror + node list \<times> (string \<times> jv) list) \<times> rstate"
and render_loop :: "platform \<Rightarrow> node list \<Rightarrow> node \<Rightarrow> bool \<Rightarrow> string \<Rightarrow> string option \<times> string option \<times> string \<Rightarrow> jv \<Rightarrow> string list \<Rightarrow> int \<Rightarrow> (string \<times> jv) list \<Rightarrow> rstate \<Rightarrow> (jserror + node list) \<times> rstate"
where
  "renderTemplate P into orig tempvars s =
     (if is_element orig then
        (case (if present (getAttribute orig ''v-if'')
               then eval_expr P (attr_text (getAttribute orig ''v-if'')) tempvars False s
               else (JBool True, s)) of
           (vif, s1) \<Rightarrow>
             if present (getAttribute orig ''v-if'') \<and> \<not> truthy_jv vif
             then (Inr (into @ [CommentNode (fresh s1) ''v-if''], tempvars), s1\<lparr>fresh := fresh s1 + 1\<rparr>)
             else
               (case (if present (getAttribute orig ''v-show'')
                      then eval_expr P (attr_text (getAttribute orig ''v-show'')) tempvars False s1
                      else (JBool True, s1)) of
                  (vshow, s2) \<Rightarrow>
                    let hide = (present (getAttribute orig ''v-show'') \<and> \<not> truthy_jv vshow)
                    in if present (getAttribute orig ''v-for'') then
                         (let loopfor = attr_text (getAttribute orig ''v-for'');
                              parts = split_str loopfor '' in ''
                          in case eval_loopval P parts tempvars s2 of
                               (Inl e, s3) \<Rightarrow> (Inl e, s3)
                             | (Inr coll, s3) \<Rightarrow>
                                 if (case map_of (loopcache s3) loopfor of
                                       None \<Rightarrow> False
                                     | Some c \<Rightarrow> datachk c = checksum coll)
                                 then (Inr (into @ (case map_of (loopcache s3) loopfor of
                                                      None \<Rightarrow> []
                                                    | Some c \<Rightarrow> elements c), tempvars), s3)
                                 else
                                   (case render_loop P into orig hide loopfor (loop_vars parts)
                                           coll (forin_keys coll) 0 tempvars
                                           (s3\<lparr>loopcache := AList.update loopfor
                                                  \<lparr>datachk = checksum coll, elements = []\<rparr> (loopcache s3)\<rparr>) of
                                      (Inl e, s4) \<Rightarrow> (Inl e, s4)
                                    | (Inr into', s4) \<Rightarrow> (Inr (into', tempvars), s4)))
                       else
                         (case appendClone P into orig tempvars hide s2 of
                            (Inl e, s3) \<Rightarrow> (Inl e, s3)
                          | (Inr (into', nw, tv), s3) \<Rightarrow> (Inr (into', tv), s3))))
      else if nodeType orig = 3 then
        (if textContent orig \<noteq> [] then
           (case parseMoustache P (textContent orig) tempvars s of
              (text, s1) \<Rightarrow>
                (Inr (into @ [TextNode (fresh s1) text], tempvars), s1\<lparr>fresh := fresh s1 + 1\<rparr>))
         else (Inr (into, tempvars), s))
      else (Inr (into, tempvars), s))"
| "appendClone P into orig tempvars hide s =
     (case cloneElement P orig tempvars s of
        (Inl e, s1) \<Rightarrow> (Inl e, s1)
      | (Inr (nw, tv), s1) \<Rightarrow>
          let nw1 = (if hide then set_hidden nw else nw)
          in (Inr (into @ [nw1], nw1, tv), s1))"
| "cloneElement P orig tempvars s =
     (let i = fresh s;
          tag = (case tagName orig of Some t \<Rightarrow> t | None \<Rightarrow> ''UNDEFINED'')
      in case bind_component orig tempvars (s\<lparr>fresh := i + 1\<rparr>) of
           (Inl e, s1) \<Rightarrow> (Inl e, s1)
         | (Inr tv, s1) \<Rightarrow>
             (case foldl (clone_attribute P orig tv)
                     (\<lparr>nw_attributes = [], nw_listeners = [], innerhtml = JNull, setvalue = JNull,
                        checksumstr = []\<rparr>, s1)
                     (attributes orig) of
                (c0, s2) \<Rightarrow>
                  let c = stamp_eventid tv c0
                  in if truthy_jv (innerhtml c) then
                       (case parse_html P (to_string (innerhtml c)) (fresh s2) of
                          (kids, fr) \<Rightarrow>
                            (Inr (Element i tag (nw_attributes c) kids None False (nw_listeners c), tv),
                             s2\<lparr>fresh := fr\<rparr>))
                     else
                       (case render_children P [] (childNodes orig) tv s2 of
                          (Inl e, s3) \<Rightarrow> (Inl e, s3)
                        | (Inr (kids, tv'), s3) \<Rightarrow>
                            (case (if childElementCount orig = 0 \<and> textContent orig \<noteq> []
                                   then (case parseMoustache P (textContent orig) tv' s3 of
                                           (text, s4) \<Rightarrow>
                                             if text = [] then ([], s4)
                                             else ([TextNode (fresh s4) text], s4\<lparr>fresh := fresh s4 + 1\<rparr>))
                                   else (kids, s3)) of
                               (kids', s5) \<Rightarrow>
                                 (Inr (Element i tag (nw_attributes c) kids'
                                         (if truthy_jv (setvalue c) then Some (to_string (setvalue c)) else None)
                                         False (nw_listeners c), tv'),
                                  s5)))))"
| "render_children P into cns tempvars s =
     (case cns of
        [] \<Rightarrow> (Inr (into, tempvars), s)
      | cn # rest \<Rightarrow>
          (case renderTemplate P into cn tempvars s of
             (Inl e, s1) \<Rightarrow> (Inl e, s1)
           | (Inr (into', tv), s1) \<Rightarrow> render_children P into' rest tv s1))"
| "render_loop P into orig hide loopfor vars coll keys index tempvars s =
     (case keys of
        [] \<Rightarrow> (Inr into, s)
      | i # rest \<Rightarrow>
          (case appendClone P into orig (loop_scope vars coll i index tempvars) hide s of
             (Inl e, s1) \<Rightarrow> (Inl e, s1)
           | (Inr (into', elm, tv), s1) \<Rightarrow>
               (case cache_push loopfor elm s1 of
                  (Inl e, s2) \<Rightarrow> (Inl e, s2)
                | (Inr ok, s2) \<Rightarrow>
                    render_loop P into' orig hide loopfor vars coll rest
                      (if present (fst (snd vars)) then index + 1 else index) tempvars s2)))"
  by pat_completeness auto
termination
  by (relation "inv_image (less_than <*lex*> less_than)
        (\<lambda>x. case x of
           Inl (Inl (P, into, orig, tempvars, s)) \<Rightarrow> (5 * size orig + 4, 0)
         | Inl (Inr (P, into, orig, tempvars, hide, s)) \<Rightarrow> (5 * size orig + 2, 0)
         | Inr (Inl (P, orig, tempvars, s)) \<Rightarrow> (5 * size orig + 1, 0)
         | Inr (Inr (Inl (P, into, cns, tempvars, s))) \<Rightarrow> (5 * size_list size cns, 0)
         | Inr (Inr (Inr (P, into, orig, hide, loopfor, vars, coll, keys, index, tempvars, s))) \<Rightarrow>
             (5 * size orig + 3, length keys))")
     (auto simp: le_imp_less_Suc size_childNodes)

declare renderTemplate.simps [simp del] appendClone.simps [simp del] cloneElement.simps [simp del]
  render_children.simps [simp del] render_loop.simps [simp del]

section \<open>Example views\<close>






definition view_N :: view where
  "view_N =
     \<lparr>heap = (\<lambda>a. \<lparr>kind = Plain, props = []\<rparr>)
        (0 := \<lparr>kind = Plain, props = [(''x'', Null), (''n'', Num 5)]\<rparr>),
      nxt = 1, data = 0, el = Null, watch = [''n''], onupdate = False, oncreate = False,
      renderlock = False, renderedOnce = True, renderTimeout = None, timers = 1,
      subtrees = (\<lambda>w. []), wnext = 1, trace = []\<rparr>"


text \<open>Platforms, templates and nodes for the renderer.\<close>

definition platform_Aa :: platform where
  "platform_Aa =
     \<lparr>js_eval = (\<lambda>e tv nr. if e = ''items'' then Inr (JArr [JStr ''Aa''])
                       else if e = ''no'' then Inr (JBool False)
                       else Inl (EvalError ''ReferenceError'' (e @ '' is not defined'') e e)),
      loose_eq = (\<lambda>a b. a = b), parse_html = (\<lambda>t n. ([], n))\<rparr>"


definition render_start :: rstate where
  "render_start =
     \<lparr>view_id = ''v'', model = [(''m'', JStr ''hi'')], loopcache = [], fresh = 0, warns = [],
      components = [], instances = [], constructed = []\<rparr>"


definition template_if :: node where
  "template_if = Element 102 ''P'' [(''v-if'', ''no'')] [TextNode 103 ''x''] None False []"

definition button_Aa :: node where
  "button_Aa = Element 104 ''BUTTON'' [(''v-on:click'', ''Aa'')] [] None False []"

definition button_BB :: node where
  "button_BB = Element 105 ''BUTTON'' [(''v-on:click'', ''BB'')] [] None False []"



definition rendered_Aa :: node where
  "rendered_Aa = Element 0 ''BUTTON'' [(''v-eventid'', ''3cf4-2362'')] [] None False
                   [(''click'', EventHandler ''Aa'' [])]"

definition rendered_BB :: node where
  "rendered_BB = Element 1 ''BUTTON'' [(''v-eventid'', ''3cf4-2362'')] [] None False
                   [(''click'', EventHandler ''BB'' [])]"

definition rendered_Ab :: node where
  "rendered_Ab = Element 1 ''BUTTON'' [(''v-eventid'', ''3d02-3ae3'')] [] None False
                   [(''click'', EventHandler ''Ab'' [])]"

definition button_Ab :: node where
  "button_Ab = Element 106 ''BUTTON'' [(''v-on:click'', ''Ab'')] [] None False []"

definition old_empty :: node where
  "old_empty = Element 0 ''DIV'' [] [] None False []"

definition new_one :: node where
  "new_one = Element 1 ''DIV'' [] [Element 2 ''SPAN'' [] [] None False []] None False []"

definition old_one :: node where
  "old_one = Element 0 ''DIV'' [] [Element 1 ''SPAN'' [] [] None False []] None False []"

definition new_two :: node where
  "new_two = Element 2 ''DIV'' [] [Element 3 ''SPAN'' [] [] None False [],
                                   Element 4 ''SPAN'' [] [] None False []] None False []"

definition new_many :: node where
  "new_many = Element 2 ''DIV'' [] (replicate 102 (Element 3 ''SPAN'' [] [] None False [])) None False []"

definition platform_expr :: platform where
  "platform_expr =
     \<lparr>js_eval = (\<lambda>e tv nr. if e = ''a'' then Inr (JNum 5)
                       else if e = '' o '' then Inr (JObj [])
                       else Inl (EvalError ''ReferenceError'' (e @ '' is not defined'') e e)),
      loose_eq = (\<lambda>a b. a = b), parse_html = (\<lambda>t n. ([], n))\<rparr>"



section \<open>Proofs: the reactive wrapper\<close>

























lemma starts_emit: "starts (emit e s) = starts s + (if is_start e then 1 else 0)"
  by (simp add: starts_def emit_def)








lemma trace_render: "\<exists>r. trace (render s) = trace s @ r"
  by (simp add: render_def dorender_def emit_def Let_def split: option.splits)

text \<open>
  C9. When a watcher is registered for \<open>k\<close>, every call of \<open>setPath\<close> with the path
  \<open>[k]\<close> calls it with the new value before anything else; a write that is then suppressed
  (a value that is not of type object and equals the stored one) has called the watcher and
  done nothing more.
\<close>

theorem watch_fires_before_suppression:
  assumes "k \<in> set (watch s)"
  shows "(\<exists>rest. trace (snd (setPath s d [k] v)) = trace s @ Watch k v # rest) \<and>
         (typeof (heap s) v \<noteq> TObject \<and> getprop (heap s) (Ref (data s)) k = v \<longrightarrow>
            setPath s d [k] v = (Inr True, emit (Watch k v) s))"
proof
  define s1 where "s1 = emit (Watch k v) s"
  have t1: "trace s1 = trace s @ [Watch k v]" by (simp add: s1_def emit_def)
  show "\<exists>rest. trace (snd (setPath s d [k] v)) = trace s @ Watch k v # rest"
  proof (cases "typeof (heap s1) v \<noteq> TObject \<and> getprop (heap s1) (Ref (data s1)) k = v")
    case True
    then show ?thesis using assms t1 by (simp add: setPath_def s1_def [symmetric] last_key_def)
  next
    case False
    show ?thesis
    proof (cases "setprop (heap s1) (Ref (data s1)) k v")
      case (Inl e)
      then show ?thesis using assms t1 False
        by (simp add: setPath_def s1_def [symmetric] last_key_def)
    next
      case (Inr h)
      obtain r where "trace (render (s1\<lparr>heap := h\<rparr>)) = trace (s1\<lparr>heap := h\<rparr>) @ r"
        using trace_render by blast
      then show ?thesis using assms t1 False Inr
        by (simp add: setPath_def s1_def [symmetric] last_key_def)
    qed
  qed
next
  show "typeof (heap s) v \<noteq> TObject \<and> getprop (heap s) (Ref (data s)) k = v \<longrightarrow>
            setPath s d [k] v = (Inr True, emit (Watch k v) s)"
    using assms by (simp add: setPath_def emit_def last_key_def)
qed

text \<open>
  \<open>view_N\<close> watches \<open>n\<close>, and the write of the stored value 5 to \<open>n\<close> calls the watcher.
\<close>

theorem watch_fires_before_suppression_witness:
  "''n'' \<in> set (watch view_N) \<and> typeof (heap view_N) (Num 5) \<noteq> TObject \<and>
   getprop (heap view_N) (Ref (data view_N)) ''n'' = Num 5 \<and>
   setPath view_N (Ref 0) [''n''] (Num 5) = (Inr True, emit (Watch ''n'' (Num 5)) view_N)"
proof -
  have h: "''n'' \<in> set (watch view_N)" by (simp add: view_N_def)
  have e: "typeof (heap view_N) (Num 5) \<noteq> TObject \<and>
           getprop (heap view_N) (Ref (data view_N)) ''n'' = Num 5"
    by (simp add: view_N_def typeof_def getprop_def)
  show ?thesis
    using watch_fires_before_suppression [OF h, of "Ref 0" "Num 5"] h e by blast
qed

lemma starts_render_locked: "renderlock s \<Longrightarrow> render s = s"
  by (simp add: render_def)











section \<open>Proofs about the renderer\<close>









lemma template_if_eval:
  "renderTemplate platform_Aa [] template_if [] render_start =
     (Inr ([CommentNode 0 ''v-if''], []), render_start\<lparr>fresh := 1\<rparr>)"
  by code_simp









lemma attributes_set_children: "attributes (set_children cs n) = attributes n"
  by (cases n) simp_all

lemma attributes_set_value: "attributes (set_value v n) = attributes n"
  by (cases n) simp_all

lemma nodeType_set_children: "nodeType (set_children cs n) = nodeType n"
  by (cases n) simp_all

lemma nodeType_set_value: "nodeType (set_value v n) = nodeType n"
  by (cases n) simp_all

lemma nodeType_element: "is_element n \<Longrightarrow> nodeType n = 1"
  by (cases n) simp_all

text \<open>
  C5, as the code has it. \<open>compareNodes\<close> compares the \<open>v-eventid\<close> attributes, not the
  sources of the listeners: when the old node is an element that is not marked
  \<open>v-static="keep"\<close>, the two attributes differ and one of them is a non-empty string, the
  answer is false.
\<close>

theorem distinct_event_ids_incompatible:
  assumes "is_element left"
    and "getAttribute left ''v-static'' \<noteq> Some ''keep''"
    and "getAttribute left ''v-eventid'' \<noteq> getAttribute right ''v-eventid''"
    and "present (getAttribute left ''v-eventid'') \<or> present (getAttribute right ''v-eventid'')"
  shows "fst (compareNodes fr left right) = False"
proof -
  have content: "fst (compare_content fr1 left1 right) = False"
    if "nodeType left1 = 1" and "attributes left1 = attributes left" for fr1 left1
    using that assms(3,4)
    by (simp add: compare_content_def Let_def getAttribute_def attributes_set_value
          nodeType_set_value)
  have resize: "nodeType left1 = 1 \<and> attributes left1 = attributes left"
    if "resize_children fr left (length (childNodes right)) = Some (left1, fr1)" for left1 fr1
    using that nodeType_element [OF assms(1)]
    by (auto simp: resize_children_def Let_def attributes_set_children nodeType_set_children
          split: if_splits)
  show ?thesis
    using assms(2) content resize
    by (auto simp: compareNodes_def split: option.splits)
qed

lemma clone_buttons:
  "cloneElement platform_Aa button_Aa [] render_start = (Inr (rendered_Aa, []), render_start\<lparr>fresh := 1\<rparr>) \<and>
   cloneElement platform_Aa button_BB [] (render_start\<lparr>fresh := 1\<rparr>)
     = (Inr (rendered_BB, []), render_start\<lparr>fresh := 2\<rparr>) \<and>
   cloneElement platform_Aa button_Ab [] (render_start\<lparr>fresh := 1\<rparr>)
     = (Inr (rendered_Ab, []), render_start\<lparr>fresh := 2\<rparr>)"
  by code_simp

lemma compare_buttons: "compareNodes 2 rendered_Aa rendered_BB = (True, rendered_Aa, 2)"
  by code_simp

text \<open>
  C5 as the spec states it fails: \<open><button v-on:click="Aa">\<close> and
  \<open><button v-on:click="BB">\<close> are bound to different sources, and both render with
  \<open>v-eventid="3cf4-2362"\<close>, the checksum of \<open>//Aa//{}\<close> and of \<open>//BB//{}\<close>; the rendered nodes
  have the same attributes and \<open>compareNodes\<close> answers true.
\<close>

theorem colliding_signatures_counterexample:
  "cloneElement platform_Aa button_Aa [] render_start = (Inr (rendered_Aa, []), render_start\<lparr>fresh := 1\<rparr>) \<and>
   cloneElement platform_Aa button_BB [] (render_start\<lparr>fresh := 1\<rparr>)
     = (Inr (rendered_BB, []), render_start\<lparr>fresh := 2\<rparr>) \<and>
   attributes button_Aa = [(''v-on:click'', ''Aa'')] \<and>
   attributes button_BB = [(''v-on:click'', ''BB'')] \<and>
   attributes rendered_Aa = attributes rendered_BB \<and>
   compareNodes 2 rendered_Aa rendered_BB = (True, rendered_Aa, 2)"
  using clone_buttons compare_buttons
  by (simp add: button_Aa_def button_BB_def rendered_Aa_def rendered_BB_def)

text \<open>The buttons bound to \<open>Aa\<close> and to \<open>Ab\<close> have different event ids.\<close>

theorem distinct_event_ids_incompatible_witness:
  "is_element rendered_Aa \<and> getAttribute rendered_Aa ''v-static'' \<noteq> Some ''keep'' \<and>
   getAttribute rendered_Aa ''v-eventid'' \<noteq> getAttribute rendered_Ab ''v-eventid'' \<and>
   present (getAttribute rendered_Aa ''v-eventid'') \<and>
   fst (compareNodes 2 rendered_Aa rendered_Ab) = False"
proof -
  have h1: "is_element rendered_Aa" by (simp add: rendered_Aa_def)
  have h2: "getAttribute rendered_Aa ''v-static'' \<noteq> Some ''keep''"
    by (simp add: rendered_Aa_def getAttribute_def)
  have h3: "getAttribute rendered_Aa ''v-eventid'' \<noteq> getAttribute rendered_Ab ''v-eventid''"
    by (simp add: rendered_Aa_def rendered_Ab_def getAttribute_def)
  have h4: "present (getAttribute rendered_Aa ''v-eventid'')"
    by (simp add: rendered_Aa_def getAttribute_def present_def)
  then have h4': "present (getAttribute rendered_Aa ''v-eventid'') \<or>
                  present (getAttribute rendered_Ab ''v-eventid'')" by simp
  show ?thesis
    using distinct_event_ids_incompatible [OF h1 h2 h3 h4', of 2] h1 h2 h3 h4 by blast
qed

lemma append_fillers_eq:
  "append_fillers k i cs = cs @ map (\<lambda>j. createElement j ''DIV'') [i ..< i + k]"
proof (induction k arbitrary: i cs)
  case 0
  show ?case by simp
next
  case (Suc k)
  have "[i ..< i + Suc k] = i # [Suc i ..< Suc i + k]"
    by (simp add: upt_conv_Cons)
  then show ?case using Suc.IH [of "Suc i" "cs @ [createElement i ''DIV'']"] by simp
qed

lemma childNodes_set_value: "childNodes (set_value v n) = childNodes n"
  by (cases n) simp_all

lemma childNodes_set_attributes: "childNodes (set_attributes a n) = childNodes n"
  by (cases n) simp_all

lemma childNodes_set_children: "childNodes n \<noteq> [] \<Longrightarrow> childNodes (set_children cs n) = cs"
  by (cases n) simp_all

lemma compare_content_children:
  "childNodes (fst (snd (compare_content fr1 left1 right))) = childNodes left1 \<and>
   snd (snd (compare_content fr1 left1 right)) = fr1"
  by (simp add: compare_content_def Let_def childNodes_set_value childNodes_set_attributes)

text \<open>
  C7, as the code has it. For two nodes of the same type and tag, the old one not marked
  \<open>v-static="keep"\<close>, with \<open>ll\<close> children in the old node and \<open>rl\<close> in the new one:
  when the counts differ and \<open>ll\<close> is above 100 the answer is false and the old node is
  unchanged; when \<open>ll\<close> is 0 and \<open>rl\<close> is not, the answer is false and the old node is
  unchanged; when \<open>0 < ll \<le> 100\<close> and \<open>ll < rl\<close>, the old node is given \<open>rl - ll\<close> new empty
  \<open>div\<close> elements after its children, and when \<open>rl < ll \<le> 100\<close> it keeps its first \<open>rl\<close>
  children, before the comparison of text, value, event id and attributes.
\<close>

theorem child_count_reconciliation:
  assumes "nodeType left = nodeType right" and "tagName left = tagName right"
    and "\<not> (is_element left \<and> getAttribute left ''v-static'' = Some ''keep'')"
  shows "(length (childNodes left) \<noteq> length (childNodes right) \<and> 100 < length (childNodes left)
            \<longrightarrow> compareNodes fr left right = (False, left, fr)) \<and>
         (length (childNodes left) = 0 \<and> 0 < length (childNodes right)
            \<longrightarrow> compareNodes fr left right = (False, left, fr)) \<and>
         (0 < length (childNodes left) \<and> length (childNodes left) \<le> 100
            \<and> length (childNodes left) < length (childNodes right)
            \<longrightarrow> childNodes (fst (snd (compareNodes fr left right))) =
                  childNodes left @ map (\<lambda>j. createElement j ''DIV'')
                    [fr ..< fr + (length (childNodes right) - length (childNodes left))]
                \<and> snd (snd (compareNodes fr left right)) =
                  fr + (length (childNodes right) - length (childNodes left))) \<and>
         (length (childNodes left) \<le> 100 \<and> length (childNodes right) < length (childNodes left)
            \<longrightarrow> childNodes (fst (snd (compareNodes fr left right))) =
                  take (length (childNodes right)) (childNodes left)
                \<and> snd (snd (compareNodes fr left right)) = fr)"
proof -
  have unfold: "compareNodes fr left right =
      (case resize_children fr left (length (childNodes right)) of
         None \<Rightarrow> (False, left, fr)
       | Some (left1, fr1) \<Rightarrow> compare_content fr1 left1 right)"
    using assms by (auto simp: compareNodes_def)
  have c1: "compareNodes fr left right = (False, left, fr)"
    if "length (childNodes left) \<noteq> length (childNodes right) \<and> 100 < length (childNodes left)"
  proof -
    have "resize_children fr left (length (childNodes right)) = None"
      using that by (auto simp: resize_children_def Let_def)
    then show ?thesis by (simp add: unfold)
  qed
  have c2: "compareNodes fr left right = (False, left, fr)"
    if "length (childNodes left) = 0 \<and> 0 < length (childNodes right)"
  proof -
    have "resize_children fr left (length (childNodes right)) = None"
      using that by (auto simp: resize_children_def Let_def)
    then show ?thesis by (simp add: unfold)
  qed
  have c3: "childNodes (fst (snd (compareNodes fr left right))) =
                  childNodes left @ map (\<lambda>j. createElement j ''DIV'')
                    [fr ..< fr + (length (childNodes right) - length (childNodes left))]
                \<and> snd (snd (compareNodes fr left right)) =
                  fr + (length (childNodes right) - length (childNodes left))"
    if a: "0 < length (childNodes left) \<and> length (childNodes left) \<le> 100
            \<and> length (childNodes left) < length (childNodes right)"
  proof -
    have ne: "childNodes left \<noteq> []" using a by auto
    have r: "resize_children fr left (length (childNodes right)) =
          Some (set_children (append_fillers (length (childNodes right) - length (childNodes left))
                   fr (childNodes left)) left,
                fr + (length (childNodes right) - length (childNodes left)))"
      using a by (simp add: resize_children_def Let_def)
    show ?thesis
      unfolding unfold r
      by (simp add: compare_content_children childNodes_set_children [OF ne] append_fillers_eq)
  qed
  have c4: "childNodes (fst (snd (compareNodes fr left right))) =
                  take (length (childNodes right)) (childNodes left)
                \<and> snd (snd (compareNodes fr left right)) = fr"
    if a: "length (childNodes left) \<le> 100 \<and> length (childNodes right) < length (childNodes left)"
  proof -
    have ne: "childNodes left \<noteq> []" using a by auto
    have r: "resize_children fr left (length (childNodes right)) =
          Some (set_children (take (length (childNodes right)) (childNodes left)) left, fr)"
      using a by (simp add: resize_children_def Let_def)
    show ?thesis
      unfolding unfold r
      by (simp add: compare_content_children childNodes_set_children [OF ne])
  qed
  show ?thesis using c1 c2 c3 c4 by blast
qed

lemma compare_empty: "compareNodes 3 old_empty new_one = (False, old_empty, 3)"
  by code_simp

lemma compare_many:
  "fst (compareNodes 4 old_one new_many) = True \<and>
   length (childNodes (fst (snd (compareNodes 4 old_one new_many)))) = 102"
  by code_simp

text \<open>
  C7 as the spec states it fails: an old \<open>div\<close> without children and a new one with one
  child differ by one in their child counts, and \<open>compareNodes\<close> answers false without padding;
  an old \<open>div\<close> with one child and a new one with 102 children differ by 101, and the old
  one is padded to 102 children and the answer is true. The bound of 100 is on the child
  count of the old node.
\<close>

theorem small_mismatch_rejected_counterexample:
  "nodeType old_empty = nodeType new_one \<and> tagName old_empty = tagName new_one \<and>
   length (childNodes old_empty) = 0 \<and> length (childNodes new_one) = 1 \<and>
   compareNodes 3 old_empty new_one = (False, old_empty, 3) \<and>
   length (childNodes old_one) = 1 \<and> length (childNodes new_many) = 102 \<and>
   fst (compareNodes 4 old_one new_many) = True \<and>
   length (childNodes (fst (snd (compareNodes 4 old_one new_many)))) = 102"
  using compare_empty compare_many
  by (simp add: old_empty_def new_one_def old_one_def new_many_def)

text \<open>An old \<open>div\<close> with one child is padded against a new one with two.\<close>

theorem child_count_reconciliation_witness:
  "nodeType old_one = nodeType new_two \<and> tagName old_one = tagName new_two \<and>
   getAttribute old_one ''v-static'' \<noteq> Some ''keep'' \<and>
   length (childNodes old_one) = 1 \<and> length (childNodes new_two) = 2 \<and>
   childNodes (fst (snd (compareNodes 5 old_one new_two))) =
     childNodes old_one @ [createElement 5 ''DIV''] \<and>
   snd (snd (compareNodes 5 old_one new_two)) = 6"
proof -
  have h1: "nodeType old_one = nodeType new_two" by (simp add: old_one_def new_two_def)
  have h2: "tagName old_one = tagName new_two" by (simp add: old_one_def new_two_def)
  have h3: "getAttribute old_one ''v-static'' \<noteq> Some ''keep''"
    by (simp add: old_one_def getAttribute_def)
  then have h3': "\<not> (is_element old_one \<and> getAttribute old_one ''v-static'' = Some ''keep'')"
    by simp
  have l1: "length (childNodes old_one) = 1" by (simp add: old_one_def)
  have l2: "length (childNodes new_two) = 2" by (simp add: new_two_def)
  have "childNodes (fst (snd (compareNodes 5 old_one new_two))) =
          childNodes old_one @ map (\<lambda>j. createElement j ''DIV'') [5 ..< 5 + (2 - 1)]
        \<and> snd (snd (compareNodes 5 old_one new_two)) = 5 + (2 - 1)"
    using child_count_reconciliation [OF h1 h2 h3', of 5] l1 l2 by simp
  then show ?thesis using h1 h2 h3 l1 l2 by simp
qed





lemma moustache_example:
  "parseMoustache platform_expr ''x{{a}}-{{ o }}{ {{m}} {{zz}} {{b} }}'' [(''u'', JUndefined)] render_start =
    (''x5-[Object]{ hi null {{b} }}'',
     render_start\<lparr>warns := [''[Vidi] got an object when evaluating {{ o }}'',
                   ''Template for '' @ [CHR 0x27] @ ''#v'' @ [CHR 0x27] @
                   '' references a variable not in its model: zz is not defined'']\<rparr>)"
  by code_simp





end
